theory Spec2Isabelle
  imports Main
begin

section \<open>The accumulation function\<close>

text \<open>
  The module \<^verbatim>\<open>docs/example1.py\<close> defines one function with logic in it:
  \<^verbatim>\<open>
  def fact(n):
      x = 1
      for i in range(1, n + 1):
          x += i
      return x
  \<close>
  Python integers are unbounded, so they are \<^typ>\<open>int\<close>. The builtin
  \<^verbatim>\<open>range(start, stop)\<close> yields \<open>start, start + 1, ..., stop - 1\<close> and nothing when
  \<open>stop \<le> start\<close>. The \<^verbatim>\<open>for\<close> loop is a recursion over these values that threads the local
  variable \<^verbatim>\<open>x\<close>. The names \<open>fact\<close> and \<open>range\<close> are constants of HOL already, so
  both carry the suffix \<open>_py\<close>.
\<close>

definition range_py :: "int \<Rightarrow> int \<Rightarrow> int list" where
  "range_py start stop = [start..stop - 1]"

fun fact_loop :: "int list \<Rightarrow> int \<Rightarrow> int" where
  "fact_loop [] x = x"
| "fact_loop (i # rest) x = fact_loop rest (x + i)"

definition fact_py :: "int \<Rightarrow> int" where
  "fact_py n = fact_loop (range_py 1 (n + 1)) 1"

section \<open>Values, exceptions and the interpreter state\<close>

text \<open>
  Everything else in the module is executed by the interpreter at top level: an import, two
  class statements, the function definition and the block under
  \<^verbatim>\<open>if __name__ == "__main__"\<close>. The module is Python 3 (it holds an f-string, which
  Python 3.6 and later accept). What these statements do depends on which names are
  bound when they run, so the global namespace is part of the state, together with what has been
  written to standard output.

  \<open>pyval\<close> holds the objects this module can create or name: \<^verbatim>\<open>None\<close>, integers,
  strings, the imported module, class objects, instances of the module's classes (an
  \<^verbatim>\<open>Item\<close> always has \<^verbatim>\<open>id = 0\<close> and \<^verbatim>\<open>name = ""\<close>, as \<^verbatim>\<open>__init__\<close> sets them and
  nothing changes them), the function object of \<^verbatim>\<open>def fact\<close>, the function object of the
  expression \<^verbatim>\<open>lambda n: fact(n)\<close>, and the objects of the builtin namespace.
\<close>

datatype pyval =
    VNone
  | VInt int
  | VStr string
  | VModule string
  | VClass string
  | VInstance string
  | VFunction string
  | VLambda
  | VBuiltin string

text \<open>
  Exceptions are values. \<open>Unmodelled\<close> is not a Python exception: it marks an operation
  whose result lies outside the fragment of Python described here (calling an arbitrary
  builtin, rendering an object whose text holds a memory address). No theorem below
  relies on it; the executions of the module never reach it.
\<close>

datatype error =
    NameError string
  | AttributeError string
  | TypeError
  | ValueError
  | RecursionError
  | Unmodelled

record state =
  globals :: "string \<rightharpoonup> pyval"
  stdout :: string

type_synonym 'a py = "state \<Rightarrow> (error + 'a) \<times> state"

text \<open>
  A computation returns a value or raises, and in both cases leaves a state behind: what was
  bound or printed before an exception stays bound and printed.
\<close>

definition py_return :: "'a \<Rightarrow> 'a py" where
  "py_return a s = (Inr a, s)"

definition py_raise :: "error \<Rightarrow> 'a py" where
  "py_raise e s = (Inl e, s)"

definition py_bind :: "'a py \<Rightarrow> ('a \<Rightarrow> 'b py) \<Rightarrow> 'b py" where
  "py_bind m f s = (case m s of (Inl e, s') \<Rightarrow> (Inl e, s') | (Inr a, s') \<Rightarrow> f a s')"

definition py_seq :: "unit py \<Rightarrow> 'b py \<Rightarrow> 'b py" where
  "py_seq m k = py_bind m (\<lambda>_. k)"

subsection \<open>Names\<close>

text \<open>
  The names of the builtin namespace (\<^verbatim>\<open>dir(builtins)\<close> of CPython 3.11). Names are case
  sensitive: \<^verbatim>\<open>list\<close> is one of them, \<^verbatim>\<open>List\<close> is not.
\<close>

definition builtin_names :: "string list" where
  "builtin_names =
   [''ArithmeticError'', ''AssertionError'', ''AttributeError'', ''BaseException'',
     ''BaseExceptionGroup'', ''BlockingIOError'', ''BrokenPipeError'', ''BufferError'',
     ''BytesWarning'', ''ChildProcessError'', ''ConnectionAbortedError'',
     ''ConnectionError'', ''ConnectionRefusedError'', ''ConnectionResetError'',
     ''DeprecationWarning'', ''EOFError'', ''Ellipsis'', ''EncodingWarning'',
     ''EnvironmentError'', ''Exception'', ''ExceptionGroup'', ''False'',
     ''FileExistsError'', ''FileNotFoundError'', ''FloatingPointError'', ''FutureWarning'',
     ''GeneratorExit'', ''IOError'', ''ImportError'', ''ImportWarning'',
     ''IndentationError'', ''IndexError'', ''InterruptedError'', ''IsADirectoryError'',
     ''KeyError'', ''KeyboardInterrupt'', ''LookupError'', ''MemoryError'',
     ''ModuleNotFoundError'', ''NameError'', ''None'', ''NotADirectoryError'',
     ''NotImplemented'', ''NotImplementedError'', ''OSError'', ''OverflowError'',
     ''PendingDeprecationWarning'', ''PermissionError'', ''ProcessLookupError'',
     ''RecursionError'', ''ReferenceError'', ''ResourceWarning'', ''RuntimeError'',
     ''RuntimeWarning'', ''StopAsyncIteration'', ''StopIteration'', ''SyntaxError'',
     ''SyntaxWarning'', ''SystemError'', ''SystemExit'', ''TabError'', ''TimeoutError'',
     ''True'', ''TypeError'', ''UnboundLocalError'', ''UnicodeDecodeError'',
     ''UnicodeEncodeError'', ''UnicodeError'', ''UnicodeTranslateError'',
     ''UnicodeWarning'', ''UserWarning'', ''ValueError'', ''Warning'',
     ''ZeroDivisionError'', ''__build_class__'', ''__debug__'', ''__doc__'',
     ''__import__'', ''__loader__'', ''__name__'', ''__package__'', ''__spec__'', ''abs'',
     ''aiter'', ''all'', ''anext'', ''any'', ''ascii'', ''bin'', ''bool'', ''breakpoint'',
     ''bytearray'', ''bytes'', ''callable'', ''chr'', ''classmethod'', ''compile'',
     ''complex'', ''copyright'', ''credits'', ''delattr'', ''dict'', ''dir'', ''divmod'',
     ''enumerate'', ''eval'', ''exec'', ''exit'', ''filter'', ''float'', ''format'',
     ''frozenset'', ''getattr'', ''globals'', ''hasattr'', ''hash'', ''help'', ''hex'',
     ''id'', ''input'', ''int'', ''isinstance'', ''issubclass'', ''iter'', ''len'',
     ''license'', ''list'', ''locals'', ''map'', ''max'', ''memoryview'', ''min'',
     ''next'', ''object'', ''oct'', ''open'', ''ord'', ''pow'', ''print'', ''property'',
     ''quit'', ''range'', ''repr'', ''reversed'', ''round'', ''set'', ''setattr'',
     ''slice'', ''sorted'', ''staticmethod'', ''str'', ''sum'', ''super'', ''tuple'',
     ''type'', ''vars'', ''zip'']"

text \<open>
  A fresh module namespace also holds entries the interpreter puts there besides
  \<^verbatim>\<open>__name__\<close>. The module reads none of them and their values are loader objects and file
  paths, so reading one is left unmodelled.
\<close>

definition runtime_names :: "string list" where
  "runtime_names =
     [''__doc__'', ''__package__'', ''__loader__'', ''__spec__'', ''__annotations__'',
      ''__builtins__'', ''__file__'', ''__cached__'']"

text \<open>
  Reading a global name: the module's globals first, then the builtins, else
  \<^verbatim>\<open>NameError\<close>.
\<close>

definition load_name :: "string \<Rightarrow> pyval py" where
  "load_name x s =
     (case globals s x of
        Some v \<Rightarrow> (Inr v, s)
      | None \<Rightarrow>
          if x \<in> set runtime_names then (Inl Unmodelled, s)
          else if x \<in> set builtin_names then (Inr (VBuiltin x), s)
          else (Inl (NameError x), s))"

definition store_name :: "string \<Rightarrow> pyval \<Rightarrow> unit py" where
  "store_name x v s = (Inr (), s\<lparr>globals := (globals s)(x \<mapsto> v)\<rparr>)"

subsection \<open>Attributes\<close>

text \<open>
  The module reads three attributes: \<^verbatim>\<open>enum.Enum\<close>, \<^verbatim>\<open>List.of\<close> and \<^verbatim>\<open>nums.map\<close>. The
  module \<^verbatim>\<open>enum\<close> has the class \<^verbatim>\<open>Enum\<close>. No object of \<open>pyval\<close> has an attribute
  \<^verbatim>\<open>of\<close> or \<^verbatim>\<open>map\<close>, and none but the module \<^verbatim>\<open>enum\<close> has an attribute \<^verbatim>\<open>Enum\<close>.
\<close>

definition load_attr :: "pyval \<Rightarrow> string \<Rightarrow> pyval py" where
  "load_attr v a =
     (if v = VModule ''enum'' \<and> a = ''Enum'' then py_return (VClass ''Enum'')
      else if a \<in> set [''Enum'', ''of'', ''map''] then py_raise (AttributeError a)
      else py_raise Unmodelled)"

subsection \<open>Printing\<close>

text \<open>
  \<^verbatim>\<open>print(obj, end='\n')\<close> writes \<^verbatim>\<open>str(obj)\<close> and then the \<^verbatim>\<open>end\<close> string to standard
  output. \<open>py_str\<close> gives the text of the objects whose text is fixed by the language and by
  this module: an integer is written in decimal; an \<^verbatim>\<open>Item\<close> is rendered by the module's own
  \<^verbatim>\<open>__repr__\<close>, \<^verbatim>\<open>f"id: {self.id} name: {self.name}"\<close>. The text of the other objects holds
  a memory address, a file path or the name the module was loaded under, and is not given.
\<close>

definition digit_chars :: string where
  "digit_chars = ''0123456789''"

fun digits :: "nat \<Rightarrow> string" where
  "digits n =
     (if n < 10 then [digit_chars ! n] else digits (n div 10) @ [digit_chars ! (n mod 10)])"

declare digits.simps [simp del]

definition int_str :: "int \<Rightarrow> string" where
  "int_str i = (if i < 0 then ''-'' @ digits (nat (- i)) else digits (nat i))"

fun py_str :: "pyval \<Rightarrow> string option" where
  "py_str VNone = Some ''None''"
| "py_str (VInt i) = Some (int_str i)"
| "py_str (VStr t) = Some t"
| "py_str (VInstance c) =
     (if c = ''Item'' then Some (''id: '' @ int_str 0 @ '' name: '' @ '''') else None)"
| "py_str (VModule m) = None"
| "py_str (VClass c) = None"
| "py_str (VFunction f) = None"
| "py_str VLambda = None"
| "py_str (VBuiltin b) = None"

definition newline :: string where
  "newline = [CHR 0x0A]"

definition write_stdout :: "string \<Rightarrow> unit py" where
  "write_stdout t s = (Inr (), s\<lparr>stdout := stdout s @ t\<rparr>)"

subsection \<open>Calls\<close>

text \<open>
  Calling \<^verbatim>\<open>fact\<close> with an object of \<open>pyval\<close>. The body reads the global name
  \<^verbatim>\<open>range\<close>, then evaluates \<^verbatim>\<open>n + 1\<close>, which raises \<^verbatim>\<open>TypeError\<close> unless \<^verbatim>\<open>n\<close> is an
  integer, then calls what \<^verbatim>\<open>range\<close> is bound to and runs the loop. The body assigns only
  its locals \<^verbatim>\<open>x\<close> and \<^verbatim>\<open>i\<close> and writes nothing, so the state is handed back as it came.
\<close>

definition call_fact :: "pyval \<Rightarrow> pyval py" where
  "call_fact n =
     py_bind (load_name ''range'') (\<lambda>r.
       case n of
         VInt k \<Rightarrow>
           if r = VBuiltin ''range'' then py_return (VInt (fact_py k)) else py_raise Unmodelled
       | _ \<Rightarrow> py_raise TypeError)"

text \<open>
  \<^verbatim>\<open>enum.Enum(obj)\<close>, a call of the class \<^verbatim>\<open>Enum\<close> with one positional argument, is a
  lookup of the member whose value is \<^verbatim>\<open>obj\<close>. The base class \<^verbatim>\<open>Enum\<close> has no members, so
  the lookup fails for every argument. Older releases of the library report it as
  \<^verbatim>\<open>ValueError\<close> (``is not a valid Enum''), later ones as \<^verbatim>\<open>TypeError\<close> (``has no members'');
  CPython 3.11.10 is among the latter.
\<close>

datatype enum_library = Reports_ValueError | Reports_TypeError

fun enum_lookup_error :: "enum_library \<Rightarrow> error" where
  "enum_lookup_error Reports_ValueError = ValueError"
| "enum_lookup_error Reports_TypeError = TypeError"

text \<open>
  Calling an object other than the lambda's function with positional arguments. The module's
  function and classes are modelled; objects that are not callable raise \<^verbatim>\<open>TypeError\<close>,
  as does a wrong number of arguments. The lambda's function is called through \<open>call\<close>
  below.
\<close>

fun call_object :: "enum_library \<Rightarrow> pyval \<Rightarrow> pyval list \<Rightarrow> pyval py" where
  "call_object lib (VFunction f) args =
     (if f = ''fact'' then (case args of [n] \<Rightarrow> call_fact n | _ \<Rightarrow> py_raise TypeError)
      else py_raise Unmodelled)"
| "call_object lib (VClass c) args =
     (if c = ''Enum'' then
        (case args of [v] \<Rightarrow> py_raise (enum_lookup_error lib) | _ \<Rightarrow> py_raise Unmodelled)
      else if c = ''Item'' \<or> c = ''MenuOptions'' then
        (case args of [] \<Rightarrow> py_return (VInstance c) | _ \<Rightarrow> py_raise TypeError)
      else py_raise Unmodelled)"
| "call_object lib (VBuiltin b) args = py_raise Unmodelled"
| "call_object lib VLambda args = py_raise Unmodelled"
| "call_object lib VNone args = py_raise TypeError"
| "call_object lib (VInt i) args = py_raise TypeError"
| "call_object lib (VStr t) args = py_raise TypeError"
| "call_object lib (VModule m) args = py_raise TypeError"
| "call_object lib (VInstance c) args = py_raise TypeError"

text \<open>
  The function of \<^verbatim>\<open>lambda n: fact(n)\<close> reads the global \<^verbatim>\<open>fact\<close> when it is called and calls
  it with its argument. Were \<^verbatim>\<open>fact\<close> bound to that very function, the calls would nest
  until the interpreter raises \<^verbatim>\<open>RecursionError\<close>.
\<close>

definition call :: "enum_library \<Rightarrow> pyval \<Rightarrow> pyval list \<Rightarrow> pyval py" where
  "call lib f args =
     (if f = VLambda then
        (case args of
           [n] \<Rightarrow>
             py_bind (load_name ''fact'') (\<lambda>g.
               if g = VLambda then py_raise RecursionError else call_object lib g [n])
         | _ \<Rightarrow> py_raise TypeError)
      else call_object lib f args)"

section \<open>The statements of the module\<close>

text \<open>\<^verbatim>\<open>import enum\<close> (line 1) binds the module object of the standard library.\<close>

definition import_enum :: "unit py" where
  "import_enum = store_name ''enum'' (VModule ''enum'')"

text \<open>
  \<^verbatim>\<open>class Item:\<close> (lines 3 to 9) builds a class with the methods \<^verbatim>\<open>__init__\<close> and
  \<^verbatim>\<open>__repr__\<close> and binds it. Neither method runs at that point.
\<close>

definition class_Item :: "unit py" where
  "class_Item = store_name ''Item'' (VClass ''Item'')"

text \<open>
  Lines 13 to 17:
  \<^verbatim>\<open>
  @enum.Enum
  class MenuOptions:
      Option1 = 0
      Option2 = 1
      Option3 = 2
  \<close>
  A decorated class statement evaluates the decorator expression \<^verbatim>\<open>enum.Enum\<close>, builds the
  class, calls the decorator with the class as its only argument and binds the name to what
  the call returns.
\<close>

definition class_MenuOptions :: "enum_library \<Rightarrow> unit py" where
  "class_MenuOptions lib =
     py_bind (load_name ''enum'') (\<lambda>m.
     py_bind (load_attr m ''Enum'') (\<lambda>decorator.
     py_bind (call lib decorator [VClass ''MenuOptions'']) (\<lambda>c.
     store_name ''MenuOptions'' c)))"

text \<open>\<^verbatim>\<open>def fact(n):\<close> (lines 20 to 24) binds the function object.\<close>

definition def_fact :: "unit py" where
  "def_fact = store_name ''fact'' (VFunction ''fact'')"

text \<open>Line 28: \<^verbatim>\<open>nums = List.of(1, 2, 3, 4, 5)\<close>.\<close>

definition assign_nums :: "enum_library \<Rightarrow> unit py" where
  "assign_nums lib =
     py_bind (load_name ''List'') (\<lambda>cls.
     py_bind (load_attr cls ''of'') (\<lambda>f.
     py_bind (call lib f [VInt 1, VInt 2, VInt 3, VInt 4, VInt 5]) (\<lambda>v.
     store_name ''nums'' v)))"

text \<open>Line 29: \<^verbatim>\<open>facts = nums.map(lambda n: fact(n))\<close>.\<close>

definition assign_facts :: "enum_library \<Rightarrow> unit py" where
  "assign_facts lib =
     py_bind (load_name ''nums'') (\<lambda>v.
     py_bind (load_attr v ''map'') (\<lambda>f.
     py_bind (call lib f [VLambda]) (\<lambda>r.
     store_name ''facts'' r)))"

text \<open>
  Lines 30 and 31, both \<^verbatim>\<open>print(nums, end='\n')\<close>: the name \<^verbatim>\<open>print\<close> is read, then
  \<^verbatim>\<open>nums\<close>, then the call is made.
\<close>

definition print_nums :: "unit py" where
  "print_nums =
     py_bind (load_name ''print'') (\<lambda>p.
     py_bind (load_name ''nums'') (\<lambda>v.
       if p = VBuiltin ''print'' then
         (case py_str v of
            Some t \<Rightarrow> write_stdout (t @ newline)
          | None \<Rightarrow> py_raise Unmodelled)
       else py_raise Unmodelled))"

definition driver :: "enum_library \<Rightarrow> unit py" where
  "driver lib =
     py_seq (assign_nums lib) (py_seq (assign_facts lib) (py_seq print_nums print_nums))"

text \<open>Line 27: \<^verbatim>\<open>if __name__ == "__main__":\<close> guards the driver.\<close>

definition if_main :: "enum_library \<Rightarrow> unit py" where
  "if_main lib =
     py_bind (load_name ''__name__'') (\<lambda>nm.
       if nm = VStr ''__main__'' then driver lib else py_return ())"

text \<open>
  The module is its statements in order. \<open>module_with\<close> leaves the statement for
  \<^verbatim>\<open>MenuOptions\<close> open, so that the rest of the module can also be run after a class statement
  that binds the name without raising.
\<close>

definition module_with :: "unit py \<Rightarrow> enum_library \<Rightarrow> unit py" where
  "module_with menu_options lib =
     py_seq import_enum (py_seq class_Item (py_seq menu_options (py_seq def_fact (if_main lib))))"

definition module_body :: "enum_library \<Rightarrow> unit py" where
  "module_body lib = module_with (class_MenuOptions lib) lib"

text \<open>
  The interpreter starts the module with \<^verbatim>\<open>__name__\<close> bound: to \<^verbatim>\<open>"__main__"\<close> when the file
  is run as the program, to the module's name when it is imported. Nothing has been written
  yet. The entries of \<open>runtime_names\<close> are not kept in \<open>globals\<close>; \<open>load_name\<close>
  accounts for them.
\<close>

definition initial_state :: "string \<Rightarrow> state" where
  "initial_state nm = \<lparr>globals = [''__name__'' \<mapsto> VStr nm], stdout = ''''\<rparr>"

definition run_module :: "enum_library \<Rightarrow> string \<Rightarrow> (error + unit) \<times> state" where
  "run_module lib nm = module_body lib (initial_state nm)"

text \<open>
  A program that ends with an exception nobody caught exits with status 1, one that runs to
  its end with status 0.
\<close>

definition exit_status :: "(error + unit) \<times> state \<Rightarrow> nat" where
  "exit_status r = (case fst r of Inl e \<Rightarrow> 1 | Inr u \<Rightarrow> 0)"

section \<open>Properties of the accumulation function\<close>

lemma fact_loop_sum_list: "fact_loop xs x = x + sum_list xs"
  by (induction xs arbitrary: x) simp_all

lemma range_py_empty: "stop \<le> start \<Longrightarrow> range_py start stop = []"
  by (simp add: range_py_def)

lemma twice_sum_upto: "0 \<le> n \<Longrightarrow> 2 * sum_list [1..n] = n * (n + 1)"
proof (induction n rule: int_ge_induct)
  case base
  show ?case by simp
next
  case (step k)
  from step.hyps have "[1..k + 1] = [1..k] @ [k + 1]"
    by (simp add: upto_rec2)
  with step.IH show ?case
    by (simp add: algebra_simps)
qed

lemma fact_py_sum: "fact_py n = 1 + sum_list [1..n]"
  by (simp add: fact_py_def range_py_def fact_loop_sum_list)

lemma fact_py_value: "0 \<le> n \<Longrightarrow> fact_py n = 1 + n * (n + 1) div 2"
proof -
  assume "0 \<le> n"
  then have "2 * sum_list [1..n] = n * (n + 1)"
    by (rule twice_sum_upto)
  then have "sum_list [1..n] = n * (n + 1) div 2"
    by simp
  then show ?thesis
    by (simp add: fact_py_sum)
qed

lemma fact_py_below_one: "n < 1 \<Longrightarrow> fact_py n = 1"
  by (simp add: fact_py_def range_py_def)

text \<open>The first values, among them \<^verbatim>\<open>fact(1) == 2\<close> of the specification's tests.\<close>

lemma fact_py_examples: "map fact_py [- 1, 0, 1, 2, 3, 4, 5] = [1, 1, 2, 4, 7, 11, 16]"
  by code_simp

text \<open>
  Claim C1. For every non-negative integer \<open>n\<close> the function \<^verbatim>\<open>fact\<close> returns
  \<open>1 + n * (n + 1) / 2\<close> (the product of two consecutive integers is even, so the division is
  exact); in particular \<^verbatim>\<open>fact(5)\<close> is 16.
\<close>

theorem fact_py_closed_form:
  "0 \<le> n \<Longrightarrow> fact_py n = 1 + n * (n + 1) div 2 \<and> fact_py 5 = 16"
proof -
  assume "0 \<le> n"
  then have general: "fact_py n = 1 + n * (n + 1) div 2"
    by (rule fact_py_value)
  have "fact_py 5 = 1 + 5 * (5 + 1) div 2"
    by (rule fact_py_value) simp
  then have "fact_py 5 = 16"
    by simp
  with general show ?thesis
    by simp
qed

theorem fact_py_closed_form_witness:
  "(0::int) \<le> 3 \<and> fact_py 3 = 7 \<and> fact_py 5 = 16"
proof -
  have h: "(0::int) \<le> 3" by simp
  show ?thesis using h fact_py_closed_form [OF h] by simp
qed

section \<open>Properties of names and calls\<close>

lemmas py_monad_defs = py_return_def py_raise_def py_bind_def py_seq_def

lemma load_name_bound: "globals s x = Some v \<Longrightarrow> load_name x s = (Inr v, s)"
  by (simp add: load_name_def)

lemma load_name_range:
  "globals s ''range'' = None \<Longrightarrow> load_name ''range'' s = (Inr (VBuiltin ''range''), s)"
  by (simp add: load_name_def runtime_names_def builtin_names_def)

lemma load_name_List:
  "globals s ''List'' = None \<Longrightarrow> load_name ''List'' s = (Inl (NameError ''List''), s)"
  by (simp add: load_name_def runtime_names_def builtin_names_def)

lemma load_name_state: "snd (load_name x s) = s"
  by (simp add: load_name_def split: option.split)

lemma load_name_agree:
  "globals t x = globals s x \<Longrightarrow> fst (load_name x t) = fst (load_name x s)"
  by (simp add: load_name_def split: option.split)

text \<open>
  A call of \<^verbatim>\<open>fact\<close> written out: what it returns or raises is decided by the argument and
  by what \<^verbatim>\<open>range\<close> resolves to, and the state is handed back unchanged.
\<close>

lemma call_fact_eq:
  "call_fact v s =
     (case fst (load_name ''range'' s) of
        Inl e \<Rightarrow> Inl e
      | Inr r \<Rightarrow>
          (case v of
             VInt k \<Rightarrow> if r = VBuiltin ''range'' then Inr (VInt (fact_py k)) else Inl Unmodelled
           | _ \<Rightarrow> Inl TypeError),
      s)"
proof (cases "load_name ''range'' s")
  case (Pair a s')
  with load_name_state [of "''range''" s] have s': "s' = s"
    by simp
  show ?thesis
  proof (cases a)
    case (Inl e)
    with Pair s' show ?thesis
      by (simp add: call_fact_def py_bind_def)
  next
    case (Inr r)
    with Pair s' show ?thesis
      by (cases v) (simp_all add: call_fact_def py_bind_def py_return_def py_raise_def)
  qed
qed

lemma call_fact_state: "snd (call_fact v s) = s"
  by (simp add: call_fact_eq)

lemma call_fact_agree:
  "globals t ''range'' = globals s ''range'' \<Longrightarrow> fst (call_fact v t) = fst (call_fact v s)"
proof -
  assume "globals t ''range'' = globals s ''range''"
  then have "fst (load_name ''range'' t) = fst (load_name ''range'' s)"
    by (rule load_name_agree)
  then show ?thesis
    by (simp add: call_fact_eq)
qed

lemma call_fact_int:
  "globals s ''range'' = None \<Longrightarrow> call_fact (VInt n) s = (Inr (VInt (fact_py n)), s)"
  by (simp add: call_fact_def py_monad_defs load_name_range)

section \<open>Properties of the module's statements\<close>

lemma import_enum_run:
  "import_enum s = (Inr (), s\<lparr>globals := (globals s)(''enum'' \<mapsto> VModule ''enum'')\<rparr>)"
  by (simp add: import_enum_def store_name_def)

lemma class_Item_run:
  "class_Item s = (Inr (), s\<lparr>globals := (globals s)(''Item'' \<mapsto> VClass ''Item'')\<rparr>)"
  by (simp add: class_Item_def store_name_def)

lemma def_fact_run:
  "def_fact s = (Inr (), s\<lparr>globals := (globals s)(''fact'' \<mapsto> VFunction ''fact'')\<rparr>)"
  by (simp add: def_fact_def store_name_def)

text \<open>
  Once \<^verbatim>\<open>import enum\<close> has run, the decorated class statement raises and binds nothing.
\<close>

lemma class_MenuOptions_raises:
  "globals s ''enum'' = Some (VModule ''enum'') \<Longrightarrow>
   class_MenuOptions lib s = (Inl (enum_lookup_error lib), s)"
  by (simp add: class_MenuOptions_def py_monad_defs load_name_bound load_attr_def call_def)

text \<open>
  In a state that does not bind \<^verbatim>\<open>List\<close>, line 28 raises \<^verbatim>\<open>NameError\<close> before anything is
  assigned, and so does the driver.
\<close>

lemma assign_nums_NameError:
  "globals s ''List'' = None \<Longrightarrow> assign_nums lib s = (Inl (NameError ''List''), s)"
  by (simp add: assign_nums_def py_monad_defs load_name_List)

lemma driver_NameError:
  "globals s ''List'' = None \<Longrightarrow> driver lib s = (Inl (NameError ''List''), s)"
  by (simp add: driver_def py_monad_defs assign_nums_NameError)

lemma if_main_main:
  "globals s ''__name__'' = Some (VStr ''__main__'') \<Longrightarrow> if_main lib s = driver lib s"
  by (simp add: if_main_def py_monad_defs load_name_bound)

text \<open>
  The parts of the driver after line 28 do run in a state that binds what they read: the
  function of the lambda calls \<^verbatim>\<open>fact\<close>, and the two \<^verbatim>\<open>print\<close> statements write the text of
  \<^verbatim>\<open>nums\<close> and a newline each.
\<close>

lemma int_str_examples:
  "int_str 0 = ''0'' \<and> int_str 16 = ''16'' \<and> int_str (- 205) = ''-205''"
  by code_simp

lemma call_lambda_example:
  "call lib VLambda [VInt 2] \<lparr>globals = [''fact'' \<mapsto> VFunction ''fact''], stdout = ''''\<rparr> =
     (Inr (VInt 4), \<lparr>globals = [''fact'' \<mapsto> VFunction ''fact''], stdout = ''''\<rparr>)"
proof -
  have "fact_py 2 = 4"
    by code_simp
  then show ?thesis
    by (simp add: call_def py_monad_defs load_name_bound call_fact_int)
qed

lemma print_nums_example:
  "py_seq print_nums print_nums \<lparr>globals = [''nums'' \<mapsto> VInt 16], stdout = ''''\<rparr> =
     (Inr (),
      \<lparr>globals = [''nums'' \<mapsto> VInt 16], stdout = ''16'' @ newline @ ''16'' @ newline\<rparr>)"
proof -
  have "int_str 16 = ''16''"
    by code_simp
  then show ?thesis
    by (simp add: print_nums_def py_monad_defs load_name_def runtime_names_def builtin_names_def
        write_stdout_def)
qed

text \<open>
  The whole run, whatever name the module is loaded under: the first two statements bind
  \<^verbatim>\<open>enum\<close> and \<^verbatim>\<open>Item\<close>, the third raises, and the run ends there.
\<close>

lemma run_module_result:
  "run_module lib nm =
     (Inl (enum_lookup_error lib),
      \<lparr>globals = [''__name__'' \<mapsto> VStr nm, ''enum'' \<mapsto> VModule ''enum'',
                  ''Item'' \<mapsto> VClass ''Item''],
       stdout = ''''\<rparr>)"
  by (simp add: run_module_def module_body_def module_with_def initial_state_def py_monad_defs
      import_enum_run class_Item_run class_MenuOptions_raises)

text \<open>
  The run as the program, with the statement for \<^verbatim>\<open>MenuOptions\<close> replaced by one that binds
  the name to some object \<open>v\<close>: every definition succeeds, the guard holds, and the driver
  raises at \<^verbatim>\<open>List\<close>.
\<close>

lemma module_with_bound_result:
  "module_with (store_name ''MenuOptions'' v) lib (initial_state ''__main__'') =
     (Inl (NameError ''List''),
      \<lparr>globals = [''__name__'' \<mapsto> VStr ''__main__'', ''enum'' \<mapsto> VModule ''enum'',
                  ''Item'' \<mapsto> VClass ''Item'', ''MenuOptions'' \<mapsto> v,
                  ''fact'' \<mapsto> VFunction ''fact''],
       stdout = ''''\<rparr>)"
  by (simp add: module_with_def initial_state_def py_monad_defs import_enum_run class_Item_run
      def_fact_run store_name_def if_main_main driver_NameError)

text \<open>
  Claim C2. The specification has the program, run as the top-level program, write the text of
  \<^verbatim>\<open>[1, 2, 3, 4, 5]\<close> and a newline to standard output twice. The module as written writes
  nothing: the run ends with the exception of line 13 before the driver is reached, so its
  output is empty and differs from the expected text.
\<close>

theorem run_module_prints_nothing:
  "stdout (snd (run_module lib ''__main__'')) = '''' \<and>
   stdout (snd (run_module lib ''__main__'')) \<noteq>
     ''[1, 2, 3, 4, 5]'' @ newline @ ''[1, 2, 3, 4, 5]'' @ newline"
  by (simp add: run_module_result)

text \<open>
  Claim C3. The specification has the driver build the sequence 1, 2, 3, 4, 5 and a second
  sequence by applying \<^verbatim>\<open>fact\<close> to each element. In the run of the module as written
  neither \<^verbatim>\<open>nums\<close> nor \<^verbatim>\<open>facts\<close> is ever bound: no sequence is built.
\<close>

theorem run_module_binds_no_sequence:
  "globals (snd (run_module lib ''__main__'')) ''nums'' = None \<and>
   globals (snd (run_module lib ''__main__'')) ''facts'' = None"
  by (simp add: run_module_result)

text \<open>
  Claim C4. For every negative integer \<open>n\<close>, \<^verbatim>\<open>range(1, n + 1)\<close> is empty and \<^verbatim>\<open>fact\<close>
  returns the initial value 1; the call raises nothing (in a state where \<^verbatim>\<open>range\<close> is the
  builtin) and leaves the state as it was.
\<close>

theorem fact_py_negative:
  "n < 0 \<Longrightarrow> globals s ''range'' = None \<Longrightarrow>
   range_py 1 (n + 1) = [] \<and> fact_py n = 1 \<and> call_fact (VInt n) s = (Inr (VInt 1), s)"
  by (simp add: range_py_empty fact_py_below_one call_fact_int)

theorem fact_py_negative_witness:
  "(- 3 :: int) < 0 \<and> globals (initial_state ''__main__'') ''range'' = None \<and>
   range_py 1 (- 3 + 1) = [] \<and> fact_py (- 3) = 1 \<and>
   call_fact (VInt (- 3)) (initial_state ''__main__'') = (Inr (VInt 1), initial_state ''__main__'')"
proof -
  have neg: "(- 3 :: int) < 0"
    by simp
  have unbound: "globals (initial_state ''__main__'') ''range'' = None"
    by (simp add: initial_state_def)
  show ?thesis
    using neg unbound fact_py_negative [OF neg unbound] by simp
qed

text \<open>
  Claim C5. \<^verbatim>\<open>fact(0)\<close> is 1: the range \<^verbatim>\<open>range(1, 1)\<close> is empty, so the loop body never runs
  and the initial value of \<^verbatim>\<open>x\<close> is returned.
\<close>

theorem fact_py_zero: "range_py 1 (0 + 1) = [] \<and> fact_py 0 = 1"
  by (simp add: fact_py_def range_py_def)

text \<open>
  Claim C6. The specification has the program end with success status after its two writes.
  The module as written ends with an exception nobody catches: the exit status is 1 and
  nothing has been written.
\<close>

theorem run_module_exit_status:
  "exit_status (run_module lib ''__main__'') = 1 \<and>
   stdout (snd (run_module lib ''__main__'')) = ''''"
  by (simp add: run_module_result exit_status_def)

text \<open>
  Claim C7. \<^verbatim>\<open>fact\<close> is deterministic: a call with an integer \<open>n\<close> leaves the state as it
  found it, so a second call with the same \<open>n\<close>, made where the first one ended, gives the
  same result as the first. Nothing in the state but the binding of \<^verbatim>\<open>range\<close>, which the
  body reads, has a part in the result: in any two states that agree on it, whatever else is
  bound or has been printed, the call gives the same result.
\<close>

theorem call_fact_deterministic:
  "globals t ''range'' = globals s ''range'' \<Longrightarrow>
   snd (call_fact (VInt n) s) = s \<and>
   fst (call_fact (VInt n) (snd (call_fact (VInt n) s))) = fst (call_fact (VInt n) s) \<and>
   fst (call_fact (VInt n) t) = fst (call_fact (VInt n) s)"
proof -
  assume "globals t ''range'' = globals s ''range''"
  then have "fst (call_fact (VInt n) t) = fst (call_fact (VInt n) s)"
    by (rule call_fact_agree)
  then show ?thesis
    by (simp add: call_fact_state)
qed

theorem call_fact_deterministic_witness:
  "globals \<lparr>globals = [''fact'' \<mapsto> VFunction ''fact''], stdout = ''abc''\<rparr> ''range'' =
     globals (initial_state ''__main__'') ''range'' \<and>
   snd (call_fact (VInt 5) (initial_state ''__main__'')) = initial_state ''__main__'' \<and>
   fst (call_fact (VInt 5) (initial_state ''__main__'')) = Inr (VInt 16) \<and>
   fst (call_fact (VInt 5) \<lparr>globals = [''fact'' \<mapsto> VFunction ''fact''], stdout = ''abc''\<rparr>) =
     Inr (VInt 16)"
proof -
  have agree:
    "globals \<lparr>globals = [''fact'' \<mapsto> VFunction ''fact''], stdout = ''abc''\<rparr> ''range'' =
     globals (initial_state ''__main__'') ''range''"
    by (simp add: initial_state_def)
  have unbound: "globals (initial_state ''__main__'') ''range'' = None"
    by (simp add: initial_state_def)
  have "fact_py 5 = 1 + 5 * (5 + 1) div 2"
    by (rule fact_py_value) simp
  then have first: "call_fact (VInt 5) (initial_state ''__main__'') =
      (Inr (VInt 16), initial_state ''__main__'')"
    by (simp add: call_fact_int [OF unbound])
  show ?thesis
    using agree first call_fact_deterministic [OF agree, of 5] by simp
qed

text \<open>
  Claim C8. For every non-negative integer \<open>n\<close>, the call \<^verbatim>\<open>fact(n)\<close> (in a state where
  \<^verbatim>\<open>range\<close> is the builtin) raises nothing, returns an integer, namely
  \<open>1 + n * (n + 1) / 2\<close>, and has no effect on the globals or on standard output.
\<close>

theorem call_fact_no_error:
  "0 \<le> n \<Longrightarrow> globals s ''range'' = None \<Longrightarrow>
   call lib (VFunction ''fact'') [VInt n] s = (Inr (VInt (1 + n * (n + 1) div 2)), s)"
  by (simp add: call_def call_fact_int fact_py_value)

theorem call_fact_no_error_witness:
  "(0::int) \<le> 5 \<and> globals (initial_state ''__main__'') ''range'' = None \<and>
   call Reports_TypeError (VFunction ''fact'') [VInt 5] (initial_state ''__main__'') =
     (Inr (VInt 16), initial_state ''__main__'')"
proof -
  have nonneg: "(0::int) \<le> 5"
    by simp
  have unbound: "globals (initial_state ''__main__'') ''range'' = None"
    by (simp add: initial_state_def)
  show ?thesis
    using nonneg unbound call_fact_no_error [OF nonneg unbound, of Reports_TypeError] by simp
qed

text \<open>
  Claim C9. Importing or running the module raises at the class statement for
  \<^verbatim>\<open>MenuOptions\<close>: in the state the first two statements leave, the decorator call
  \<^verbatim>\<open>enum.Enum(MenuOptions)\<close> is a value lookup on a class without members and raises. The run
  of the module ends with that exception under every module name, with \<^verbatim>\<open>MenuOptions\<close>
  and \<^verbatim>\<open>fact\<close> unbound (the statements after line 13, the driver among them, never ran)
  and with nothing written.
\<close>

theorem module_raises_at_MenuOptions:
  "class_MenuOptions lib
     \<lparr>globals = [''__name__'' \<mapsto> VStr nm, ''enum'' \<mapsto> VModule ''enum'',
                 ''Item'' \<mapsto> VClass ''Item''],
      stdout = ''''\<rparr> =
     (Inl (enum_lookup_error lib),
      \<lparr>globals = [''__name__'' \<mapsto> VStr nm, ''enum'' \<mapsto> VModule ''enum'',
                  ''Item'' \<mapsto> VClass ''Item''],
       stdout = ''''\<rparr>) \<and>
   run_module lib nm =
     (Inl (enum_lookup_error lib),
      \<lparr>globals = [''__name__'' \<mapsto> VStr nm, ''enum'' \<mapsto> VModule ''enum'',
                  ''Item'' \<mapsto> VClass ''Item''],
       stdout = ''''\<rparr>) \<and>
   globals (snd (run_module lib nm)) ''MenuOptions'' = None \<and>
   globals (snd (run_module lib nm)) ''fact'' = None"
  by (simp add: run_module_result class_MenuOptions_raises)

text \<open>
  Claim C10. Even if the module-level definitions succeeded, the driver would raise
  \<^verbatim>\<open>NameError\<close> at its first statement: with \<^verbatim>\<open>MenuOptions\<close> bound to any object \<open>v\<close>, the
  run as the program reaches line 28 with \<^verbatim>\<open>enum\<close>, \<^verbatim>\<open>Item\<close>, \<^verbatim>\<open>MenuOptions\<close> and
  \<^verbatim>\<open>fact\<close> bound and \<^verbatim>\<open>List\<close> not, and ends there with \<^verbatim>\<open>NameError\<close> for \<^verbatim>\<open>List\<close>;
  \<^verbatim>\<open>nums\<close> is not bound, neither \<^verbatim>\<open>print\<close> runs and nothing is written.
\<close>

theorem driver_raises_NameError:
  "module_with (store_name ''MenuOptions'' v) lib (initial_state ''__main__'') =
     (Inl (NameError ''List''),
      \<lparr>globals = [''__name__'' \<mapsto> VStr ''__main__'', ''enum'' \<mapsto> VModule ''enum'',
                  ''Item'' \<mapsto> VClass ''Item'', ''MenuOptions'' \<mapsto> v,
                  ''fact'' \<mapsto> VFunction ''fact''],
       stdout = ''''\<rparr>) \<and>
   assign_nums lib
     \<lparr>globals = [''__name__'' \<mapsto> VStr ''__main__'', ''enum'' \<mapsto> VModule ''enum'',
                 ''Item'' \<mapsto> VClass ''Item'', ''MenuOptions'' \<mapsto> v,
                 ''fact'' \<mapsto> VFunction ''fact''],
      stdout = ''''\<rparr> =
     (Inl (NameError ''List''),
      \<lparr>globals = [''__name__'' \<mapsto> VStr ''__main__'', ''enum'' \<mapsto> VModule ''enum'',
                  ''Item'' \<mapsto> VClass ''Item'', ''MenuOptions'' \<mapsto> v,
                  ''fact'' \<mapsto> VFunction ''fact''],
       stdout = ''''\<rparr>)"
  by (simp add: module_with_bound_result assign_nums_NameError)

end
